theory Spec2Isabelle
  imports Complex_Main
begin

section \<open>Data model\<close>

text \<open>
  The gig routes (\<^verbatim>\<open>src/unnamed/part_003\<close>) and the schemas of
  \<^verbatim>\<open>src/models/Gig.js\<close>, \<^verbatim>\<open>src/models/Payment.js\<close> and
  \<^verbatim>\<open>src/models/Notification.js\<close> are embedded as functions over an explicit
  database value. Modelling conventions:

  \<^item> an ObjectId is a natural number; comparing two ObjectIds through
    \<^verbatim>\<open>toString()\<close> is equality. The text of a request parameter that is compared
    as a text, not cast, is kept apart from the id it casts to (type \<open>id_text\<close> below);
  \<^item> a JavaScript \<^verbatim>\<open>Number\<close> is a finite IEEE 754 double, held as the rational
    number it is; every product, quotient and difference of the code is rounded to the
    nearest double, ties to even (\<open>fl\<close> below). The doubles \<^verbatim>\<open>Infinity\<close> and
    \<^verbatim>\<open>NaN\<close> are not in the carrier: where the code's result leaves the finite
    range, \<open>fl\<close> still returns the rounded rational, and \<open>finite_double\<close> says when
    it does not;
  \<^item> a \<^verbatim>\<open>Date\<close> is an integer count of milliseconds; \<^verbatim>\<open>new Date()\<close> and
    freshly generated ids are inputs of the handler that uses them;
  \<^item> a schema path that may be \<^verbatim>\<open>undefined\<close> or \<^verbatim>\<open>null\<close> is an option;
  \<^item> a handler returns its HTTP answer together with the database it leaves behind; an
    exception caught by the handler's \<^verbatim>\<open>catch\<close> is the answer 500, and whatever was
    saved before the exception stays saved;
  \<^item> the \<^verbatim>\<open>auth\<close> and \<^verbatim>\<open>authorize\<close> middleware are not part of the sources:
    a handler is given the authenticated user, whose role has already been checked.
\<close>

type_synonym oid = nat
type_synonym date = int
type_synonym number = rat

datatype gig_status = Open | Assigned | InProgress | Completed | Cancelled

datatype app_status = Pending | Accepted | Rejected

record application =
  app_id :: oid
  app_worker :: oid
  appliedAt :: date
  app_message :: string
  app_status :: app_status

record gig =
  gig_id :: oid
  title :: string
  description :: string
  category :: string
  store :: oid
  worker :: "oid option"
  address :: string
  city :: string
  state :: string
  pincode :: string
  startTime :: date
  endTime :: date
  duration :: number
  hourlyRate :: number
  totalAmount :: "number option"
  status :: gig_status
  applications :: "application list"
  assignedAt :: "date option"
  startedAt :: "date option"
  completedAt :: "date option"
  maxApplications :: number
  views :: number

datatype payment_status = PayPending | PayProcessing | PayCompleted | PayFailed | PayRefunded

datatype payment_method = BankTransfer | Upi | Wallet

record payment =
  pay_gig :: oid
  pay_store :: oid
  pay_worker :: oid
  amount :: "number option"
  platformFee :: "number option"
  workerAmount :: "number option"
  pay_status :: payment_status
  paymentMethod :: "payment_method option"
  transactionId :: "string option"

record notification =
  recipient :: oid
  ntype :: string
  ntitle :: string
  nmessage :: string
  ngigId :: oid
  isRead :: bool

record user =
  user_id :: oid
  fullName :: string

record db =
  gigs :: "gig list"
  payments :: "payment list"
  notifications :: "notification list"

definition empty_db :: db where
  "empty_db = \<lparr>gigs = [], payments = [], notifications = []\<rparr>"

text \<open>
  The answers of the handlers, named after the error kinds of the specification:
  \<^item> \<open>ValidationError\<close>: 400 \<^verbatim>\<open>Validation errors\<close>;
  \<^item> \<open>NotFound\<close>: 404 \<^verbatim>\<open>Gig not found\<close>, \<^verbatim>\<open>Application not found\<close>;
  \<^item> \<open>Forbidden\<close>: 403 \<^verbatim>\<open>Not authorized to ...\<close>;
  \<^item> \<open>InvalidTransition\<close>: 400 \<^verbatim>\<open>Gig is not open for applications\<close>,
    \<^verbatim>\<open>Gig must be assigned before starting\<close>, \<^verbatim>\<open>Gig must be in progress to complete\<close>;
  \<^item> \<open>DuplicateApplication\<close>: 400 \<^verbatim>\<open>You have already applied for this gig\<close>;
  \<^item> \<open>ApplicationLimitReached\<close>: 400 \<^verbatim>\<open>Maximum applications reached for this gig\<close>;
  \<^item> \<open>InternalFailure\<close>: 500 \<^verbatim>\<open>Failed to ...\<close>, the answer of every \<^verbatim>\<open>catch\<close> block.
\<close>

datatype error =
    ValidationError
  | NotFound
  | Forbidden
  | InvalidTransition
  | DuplicateApplication
  | ApplicationLimitReached
  | InternalFailure

section \<open>Double arithmetic\<close>

text \<open>The number of binary digits of a positive integer.\<close>

function bit_length :: "int \<Rightarrow> int" where
  "bit_length n = (if n \<le> 0 then 0 else 1 + bit_length (n div 2))"
  by pat_completeness auto
termination
  by (relation "measure nat") auto

declare bit_length.simps [simp del]

text \<open>For a positive rational \<open>a\<close>, the integer \<open>e\<close> with \<open>2 ^ e \<le> a < 2 ^ (e + 1)\<close>.\<close>

definition ilog2 :: "rat \<Rightarrow> int" where
  "ilog2 a =
     (if 1 \<le> a then bit_length \<lfloor>a\<rfloor> - 1 else - bit_length (\<lceil>1 / a\<rceil> - 1))"

definition pow2 :: "int \<Rightarrow> rat" where
  "pow2 k = (if 0 \<le> k then 2 ^ nat k else 1 / 2 ^ nat (- k))"

definition round_half_even :: "rat \<Rightarrow> int" where
  "round_half_even m =
     (let f = \<lfloor>m\<rfloor>; r = m - of_int f
      in if r < 1 / 2 then f else if 1 / 2 < r then f + 1 else if even f then f else f + 1)"

text \<open>
  Rounding to the nearest double: a significand of 53 binary digits, the least exponent
  \<open>-1074\<close> of the subnormal numbers, ties to the even significand.
\<close>

definition fl :: "rat \<Rightarrow> rat" where
  "fl x =
     (if x = 0 then 0
      else
        (let a = \<bar>x\<bar>;
             q = max (ilog2 a - 52) (- 1074);
             u = pow2 q
         in sgn x * (of_int (round_half_even (a / u)) * u)))"

text \<open>The rounded result is a finite double: below \<open>2 ^ 1024\<close> in magnitude.\<close>

definition finite_double :: "rat \<Rightarrow> bool" where
  "finite_double x = (\<bar>fl x\<bar> < 2 ^ 1024)"

text \<open>The operators \<^verbatim>\<open>*\<close>, \<^verbatim>\<open>/\<close> and \<^verbatim>\<open>-\<close> of the code, on doubles.\<close>

definition fmul :: "rat \<Rightarrow> rat \<Rightarrow> rat" where
  "fmul a b = fl (a * b)"

definition fdiv :: "rat \<Rightarrow> rat \<Rightarrow> rat" where
  "fdiv a b = fl (a / b)"

definition fsub :: "rat \<Rightarrow> rat \<Rightarrow> rat" where
  "fsub a b = fl (a - b)"

section \<open>Persistence\<close>

text \<open>\<^verbatim>\<open>Gig.findById\<close>: the first stored gig with the id, or nothing.\<close>

definition findById :: "oid \<Rightarrow> db \<Rightarrow> gig option" where
  "findById gid d = find (\<lambda>g. gig_id g = gid) (gigs d)"

text \<open>Writing a document back replaces the stored gig of the same id; a new one is appended.\<close>

definition write_gig :: "gig \<Rightarrow> db \<Rightarrow> db" where
  "write_gig g d = d\<lparr>gigs := map (\<lambda>x. if gig_id x = gig_id g then g else x) (gigs d)\<rparr>"

definition insert_gig :: "gig \<Rightarrow> db \<Rightarrow> db" where
  "insert_gig g d = d\<lparr>gigs := gigs d @ [g]\<rparr>"

text \<open>\<^verbatim>\<open>gigSchema.methods.calculateTotalAmount\<close> (Gig.js, lines 166 to 169).\<close>

definition calculateTotalAmount :: "gig \<Rightarrow> gig" where
  "calculateTotalAmount g = g\<lparr>totalAmount := Some (fmul (hourlyRate g) (duration g))\<rparr>"

text \<open>
  \<^verbatim>\<open>gigSchema.pre('save')\<close> (Gig.js, lines 172 to 177), given what
  \<^verbatim>\<open>isModified('hourlyRate')\<close> and \<^verbatim>\<open>isModified('duration')\<close> answer.
\<close>

definition gig_pre_save :: "bool \<Rightarrow> bool \<Rightarrow> gig \<Rightarrow> gig" where
  "gig_pre_save rate_modified duration_modified g =
     (if rate_modified \<or> duration_modified then calculateTotalAmount g else g)"

definition categories :: "string list" where
  "categories = [''retail'', ''delivery'', ''warehouse'', ''customer-service'', ''other'']"

text \<open>
  The validators of the gig schema (Gig.js, lines 4 to 64) on the paths of the record:
  the required texts are not empty, the category is one of the enumeration, the rate is
  at least 0 and the required total is there. The other required paths (store, the two
  instants, the duration) are always there in a record.
\<close>

definition validate_gig :: "gig \<Rightarrow> bool" where
  "validate_gig g =
     (title g \<noteq> [] \<and> description g \<noteq> [] \<and> category g \<in> set categories \<and>
      address g \<noteq> [] \<and> city g \<noteq> [] \<and> state g \<noteq> [] \<and> pincode g \<noteq> [] \<and>
      0 \<le> hourlyRate g \<and> totalAmount g \<noteq> None)"

text \<open>
  \<^verbatim>\<open>gig.save()\<close> on a document \<open>g\<close> that was loaded from the database as \<open>loaded\<close>
  and assigned to since. The schema validation is the first pre-save hook of every
  schema: it sees the document before \<^verbatim>\<open>gigSchema.pre('save')\<close> runs, and a document
  it refuses makes \<^verbatim>\<open>save()\<close> throw with nothing written. A path is modified when the
  value it holds differs from the loaded one.
\<close>

definition save_gig :: "gig \<Rightarrow> gig \<Rightarrow> db \<Rightarrow> error + db" where
  "save_gig loaded g d =
     (if validate_gig g
      then Inr (write_gig
                  (gig_pre_save (hourlyRate g \<noteq> hourlyRate loaded)
                     (duration g \<noteq> duration loaded) g) d)
      else Inl InternalFailure)"

text \<open>
  \<^verbatim>\<open>gig.save()\<close> on a new document. Every path given to the constructor counts as
  modified, and the create route always gives the rate and the duration. The validation
  runs first, so a required path that only the pre-save hook would fill is still missing
  when it is checked.
\<close>

definition save_new_gig :: "gig \<Rightarrow> db \<Rightarrow> error + gig \<times> db" where
  "save_new_gig g d =
     (if validate_gig g
      then (let g' = gig_pre_save True True g in Inr (g', insert_gig g' d))
      else Inl InternalFailure)"

text \<open>
  \<^verbatim>\<open>paymentSchema.pre('save')\<close> (Payment.js, lines 60 to 66). The amount of a new
  payment is modified exactly when the constructor was given one. The literal
  \<^verbatim>\<open>0.1\<close> is the double nearest to a tenth.
\<close>

definition payment_pre_save :: "payment \<Rightarrow> payment" where
  "payment_pre_save p =
     (case amount p of
        None \<Rightarrow> p
      | Some a \<Rightarrow>
          (let fee = fmul a (fl (1 / 10))
           in p\<lparr>platformFee := Some fee, workerAmount := Some (fsub a fee)\<rparr>))"

text \<open>
  The required paths and lower bounds of the payment schema (Payment.js, lines 4 to 43),
  checked before the pre-save hook as for every schema.
\<close>

definition validate_payment :: "payment \<Rightarrow> bool" where
  "validate_payment p =
     ((case amount p of None \<Rightarrow> False | Some a \<Rightarrow> 0 \<le> a) \<and>
      (case platformFee p of None \<Rightarrow> False | Some f \<Rightarrow> 0 \<le> f) \<and>
      (case workerAmount p of None \<Rightarrow> False | Some w \<Rightarrow> 0 \<le> w) \<and>
      paymentMethod p \<noteq> None)"

definition save_payment :: "payment \<Rightarrow> db \<Rightarrow> error + db" where
  "save_payment p d =
     (if validate_payment p
      then Inr (d\<lparr>payments := payments d @ [payment_pre_save p]\<rparr>)
      else Inl InternalFailure)"

text \<open>
  \<^verbatim>\<open>Notification.create\<close>: the three calls of the gig routes give every required path
  and a type of the schema's enumeration, so the document is stored.
\<close>

definition Notification_create :: "notification \<Rightarrow> db \<Rightarrow> db" where
  "Notification_create n d = d\<lparr>notifications := notifications d @ [n]\<rparr>"

section \<open>Creating a gig\<close>

text \<open>
  The request body of \<^verbatim>\<open>POST /\<close>. A text path is absent (\<open>None\<close>) or holds a string.
  For the paths read by \<^verbatim>\<open>isISO8601\<close>, and by \<^verbatim>\<open>isNumeric\<close> with \<^verbatim>\<open>isFloat\<close>,
  the body says whether the path is missing, holds something the validator refuses, or
  holds a text the validator accepts, given by the instant or number it denotes. An
  instant is within the range of \<^verbatim>\<open>Date\<close>, so it is a double as it stands; a number
  is stored as the double nearest to it.
  The handler spreads the whole body into the constructor of the gig
  (\<^verbatim>\<open>{...req.body, store, duration}\<close>), so a body can also carry schema paths that no
  validator looks at: \<open>totalAmount\<close>, \<open>status\<close>, \<open>worker\<close> and \<open>maxApplications\<close> are
  modelled, with values their schema types accept; the other paths a body could set
  (applications, reviews, views, the lifecycle timestamps) are taken as left out.
\<close>

datatype 'a parsed = Missing | Unparsable | Parsed 'a

record gig_body =
  b_title :: "string option"
  b_description :: "string option"
  b_category :: "string option"
  b_address :: "string option"
  b_city :: "string option"
  b_state :: "string option"
  b_pincode :: "string option"
  b_startTime :: "date parsed"
  b_endTime :: "date parsed"
  b_hourlyRate :: "number parsed"
  b_totalAmount :: "number option"
  b_status :: "gig_status option"
  b_worker :: "oid option"
  b_maxApplications :: "number option"

text \<open>A validator reads a missing path as the empty string.\<close>

definition str_of :: "string option \<Rightarrow> string" where
  "str_of v = (case v of None \<Rightarrow> [] | Some s \<Rightarrow> s)"

definition is_space :: "char \<Rightarrow> bool" where
  "is_space c = (c \<in> set [CHR '' '', CHR 0x09, CHR 0x0A, CHR 0x0B, CHR 0x0C, CHR 0x0D])"

definition trim :: "string \<Rightarrow> string" where
  "trim s = rev (dropWhile is_space (rev (dropWhile is_space s)))"

definition notEmpty :: "string option \<Rightarrow> bool" where
  "notEmpty v = (str_of v \<noteq> [])"

definition isLength :: "nat \<Rightarrow> nat \<Rightarrow> string \<Rightarrow> bool" where
  "isLength lo hi s = (lo \<le> length s \<and> length s \<le> hi)"

definition isIn :: "string list \<Rightarrow> string option \<Rightarrow> bool" where
  "isIn allowed v = (str_of v \<in> set allowed)"

definition isISO8601 :: "date parsed \<Rightarrow> bool" where
  "isISO8601 v = (case v of Parsed t \<Rightarrow> True | _ \<Rightarrow> False)"

text \<open>\<^verbatim>\<open>isFloat({ min })\<close> compares the double that the text is read as.\<close>

definition isFloat_min :: "number \<Rightarrow> number parsed \<Rightarrow> bool" where
  "isFloat_min lo v = (case v of Parsed r \<Rightarrow> lo \<le> fl r | _ \<Rightarrow> False)"

text \<open>
  The validator chains of the create route (part\_003, lines 10 to 48); the request is
  refused with 400 when any of them reports an error. The title is trimmed between its
  two checks.
\<close>

definition create_validators :: "gig_body \<Rightarrow> bool" where
  "create_validators b =
     (notEmpty (b_title b) \<and> isLength 5 100 (trim (str_of (b_title b))) \<and>
      notEmpty (b_description b) \<and> isLength 20 1000 (str_of (b_description b)) \<and>
      isIn categories (b_category b) \<and>
      notEmpty (b_address b) \<and>
      notEmpty (b_city b) \<and>
      notEmpty (b_state b) \<and>
      notEmpty (b_pincode b) \<and>
      isISO8601 (b_startTime b) \<and>
      isISO8601 (b_endTime b) \<and>
      isFloat_min 50 (b_hourlyRate b))"

text \<open>
  \<^verbatim>\<open>new Gig(gigData)\<close> for a body whose two instants and rate were accepted: the body's
  paths, the store of the caller, the duration in hours
  \<^verbatim>\<open>(new Date(endTime) - new Date(startTime)) / (1000 * 60 * 60)\<close>, and the schema
  defaults (status \<^verbatim>\<open>open\<close>, no worker, at most 10 applications) where the body is
  silent.
\<close>

definition new_Gig :: "gig_body \<Rightarrow> user \<Rightarrow> oid \<Rightarrow> date \<Rightarrow> date \<Rightarrow> number \<Rightarrow> gig" where
  "new_Gig b u new_id start_ms end_ms rate =
     \<lparr>gig_id = new_id,
      title = trim (str_of (b_title b)),
      description = str_of (b_description b),
      category = str_of (b_category b),
      store = user_id u,
      worker = b_worker b,
      address = str_of (b_address b),
      city = str_of (b_city b),
      state = str_of (b_state b),
      pincode = str_of (b_pincode b),
      startTime = start_ms,
      endTime = end_ms,
      duration = fdiv (fsub (of_int end_ms) (of_int start_ms)) (1000 * 60 * 60),
      hourlyRate = fl rate,
      totalAmount = map_option fl (b_totalAmount b),
      status = (case b_status b of None \<Rightarrow> Open | Some s \<Rightarrow> s),
      applications = [],
      assignedAt = None,
      startedAt = None,
      completedAt = None,
      maxApplications = (case b_maxApplications b of None \<Rightarrow> 10 | Some m \<Rightarrow> fl m),
      views = 0\<rparr>"

text \<open>
  \<^verbatim>\<open>POST /\<close> (part\_003, lines 48 to 84): validation, construction, the first save,
  \<^verbatim>\<open>calculateTotalAmount\<close>, the second save, and the answer 201 with the gig. A save
  that throws is answered 500 by the \<^verbatim>\<open>catch\<close> block.
\<close>

definition createGig :: "db \<Rightarrow> user \<Rightarrow> gig_body \<Rightarrow> oid \<Rightarrow> (error + gig) \<times> db" where
  "createGig d u b new_id =
     (if \<not> create_validators b then (Inl ValidationError, d)
      else
        (case (b_startTime b, b_endTime b, b_hourlyRate b) of
           (Parsed start_ms, Parsed end_ms, Parsed rate) \<Rightarrow>
             (case save_new_gig (new_Gig b u new_id start_ms end_ms rate) d of
                Inl e \<Rightarrow> (Inl InternalFailure, d)
              | Inr (g, d1) \<Rightarrow>
                  (let g' = calculateTotalAmount g
                   in (case save_gig g g' d1 of
                         Inl e \<Rightarrow> (Inl InternalFailure, d1)
                       | Inr d2 \<Rightarrow> (Inr g', d2))))
         | _ \<Rightarrow> (Inl ValidationError, d)))"

section \<open>Applying for a gig\<close>

text \<open>
  The validator chain of the apply route (part\_003, lines 170 to 174): the message is
  optional; when present it is trimmed and may hold at most 500 characters.
\<close>

definition apply_validators :: "string option \<Rightarrow> bool" where
  "apply_validators msg = (case msg of None \<Rightarrow> True | Some m \<Rightarrow> length (trim m) \<le> 500)"

text \<open>\<^verbatim>\<open>req.body.message || ''\<close>, after the sanitizer has trimmed the message.\<close>

definition message_of :: "string option \<Rightarrow> string" where
  "message_of msg = (case msg of None \<Rightarrow> [] | Some m \<Rightarrow> trim m)"

definition existingApplication :: "oid \<Rightarrow> gig \<Rightarrow> application option" where
  "existingApplication uid g = find (\<lambda>a. app_worker a = uid) (applications g)"

text \<open>
  \<^verbatim>\<open>POST /:id/apply\<close> (part\_003, lines 175 to 250). The checks run in the order of the
  source: validation, existence, status, duplicate, limit.
\<close>

definition applyForGig ::
  "db \<Rightarrow> user \<Rightarrow> oid \<Rightarrow> string option \<Rightarrow> oid \<Rightarrow> date \<Rightarrow> (error + unit) \<times> db" where
  "applyForGig d u gid msg new_id now =
     (if \<not> apply_validators msg then (Inl ValidationError, d)
      else
        (case findById gid d of
           None \<Rightarrow> (Inl NotFound, d)
         | Some g \<Rightarrow>
             if status g \<noteq> Open then (Inl InvalidTransition, d)
             else if existingApplication (user_id u) g \<noteq> None
               then (Inl DuplicateApplication, d)
             else if maxApplications g \<le> of_nat (length (applications g))
               then (Inl ApplicationLimitReached, d)
             else
               (let a = \<lparr>app_id = new_id, app_worker = user_id u, appliedAt = now,
                          app_message = message_of msg, app_status = Pending\<rparr>;
                    g' = g\<lparr>applications := applications g @ [a]\<rparr>
                in (case save_gig g g' d of
                      Inl e \<Rightarrow> (Inl InternalFailure, d)
                    | Inr d1 \<Rightarrow>
                        (Inr (),
                         Notification_create
                           \<lparr>recipient = store g,
                            ntype = ''application_received'',
                            ntitle = ''New Application Received'',
                            nmessage = fullName u @ '' has applied for your gig: '' @ title g,
                            ngigId = gig_id g,
                            isRead = False\<rparr> d1)))))"

section \<open>Accepting or rejecting an application\<close>

text \<open>
  The text of the \<^verbatim>\<open>:applicationId\<close> parameter of the request. The handler uses it
  twice: \<^verbatim>\<open>gig.applications.id(...)\<close> casts it to an ObjectId, and the \<^verbatim>\<open>forEach\<close> of
  line 303 compares it, as a text, with \<^verbatim>\<open>app._id.toString()\<close>. A text is the one that
  \<^verbatim>\<open>toString()\<close> prints for an id (24 hexadecimal digits, the letters in lower case),
  or another text that casts to an id (the same digits with a letter in upper case), or
  a text that does not cast to any id.
\<close>

datatype id_text = Canonical oid | Variant oid | Uncastable

definition castObjectId :: "id_text \<Rightarrow> oid option" where
  "castObjectId t = (case t of Canonical i \<Rightarrow> Some i | Variant i \<Rightarrow> Some i | Uncastable \<Rightarrow> None)"

text \<open>\<^verbatim>\<open>i.toString() === t\<close> for an ObjectId \<open>i\<close> and a text \<open>t\<close>.\<close>

definition toString_equals :: "oid \<Rightarrow> id_text \<Rightarrow> bool" where
  "toString_equals i t = (t = Canonical i)"

text \<open>
  \<^verbatim>\<open>gig.applications.id(applicationId)\<close>: the first application whose id is the one the
  text casts to; nothing when the text does not cast.
\<close>

definition applications_id :: "id_text \<Rightarrow> application list \<Rightarrow> application option" where
  "applications_id t apps =
     (case castObjectId t of
        None \<Rightarrow> None
      | Some i \<Rightarrow> find (\<lambda>a. app_id a = i) apps)"

text \<open>
  \<^verbatim>\<open>application.status = s\<close> on the application that \<^verbatim>\<open>applications.id\<close> returned:
  the first one with the id changes, in place.
\<close>

fun set_application_status :: "oid \<Rightarrow> app_status \<Rightarrow> application list \<Rightarrow> application list" where
  "set_application_status aid s [] = []"
| "set_application_status aid s (a # rest) =
     (if app_id a = aid then a\<lparr>app_status := s\<rparr> # rest
      else a # set_application_status aid s rest)"

text \<open>
  The \<^verbatim>\<open>forEach\<close> of lines 302 to 306: every application whose id does not print as
  the text of the request is rejected.
\<close>

definition reject_others :: "id_text \<Rightarrow> application list \<Rightarrow> application list" where
  "reject_others t apps =
     map (\<lambda>a. if \<not> toString_equals (app_id a) t then a\<lparr>app_status := Rejected\<rparr> else a) apps"

text \<open>
  \<^verbatim>\<open>PUT /:id/applications/:applicationId\<close> (part\_003, lines 253 to 333). The action is
  the text of the request; the handler reads neither the status of the gig nor the
  status of the application. In the accept branch the notification is created before
  the gig is saved.
\<close>

definition resolveApplication ::
  "db \<Rightarrow> user \<Rightarrow> oid \<Rightarrow> id_text \<Rightarrow> string \<Rightarrow> date \<Rightarrow> (error + unit) \<times> db" where
  "resolveApplication d u gid aid_text action now =
     (if action \<notin> set [''accept'', ''reject''] then (Inl ValidationError, d)
      else
        (case findById gid d of
           None \<Rightarrow> (Inl NotFound, d)
         | Some g \<Rightarrow>
             if store g \<noteq> user_id u then (Inl Forbidden, d)
             else
               (case applications_id aid_text (applications g) of
                  None \<Rightarrow> (Inl NotFound, d)
                | Some application \<Rightarrow>
                    if action = ''accept'' then
                      (let g' = g\<lparr>worker := Some (app_worker application),
                                   status := Assigned,
                                   assignedAt := Some now,
                                   applications :=
                                     reject_others aid_text
                                       (set_application_status (app_id application) Accepted
                                          (applications g))\<rparr>;
                           d1 = Notification_create
                                  \<lparr>recipient = app_worker application,
                                   ntype = ''application_accepted'',
                                   ntitle = ''Application Accepted'',
                                   nmessage = ''Your application for '' @ title g @
                                              '' has been accepted!'',
                                   ngigId = gig_id g,
                                   isRead = False\<rparr> d
                       in (case save_gig g g' d1 of
                             Inl e \<Rightarrow> (Inl InternalFailure, d1)
                           | Inr d2 \<Rightarrow> (Inr (), d2)))
                    else
                      (let g' = g\<lparr>applications :=
                                     set_application_status (app_id application) Rejected
                                       (applications g)\<rparr>
                       in (case save_gig g g' d of
                             Inl e \<Rightarrow> (Inl InternalFailure, d)
                           | Inr d1 \<Rightarrow> (Inr (), d1))))))"

section \<open>Starting and completing a gig\<close>

text \<open>
  \<^verbatim>\<open>PUT /:id/start\<close> (part\_003, lines 336 to 376). The ownership check calls
  \<^verbatim>\<open>gig.worker.toString()\<close>: with no worker this throws, and the \<^verbatim>\<open>catch\<close> block
  answers 500.
\<close>

definition startGig :: "db \<Rightarrow> user \<Rightarrow> oid \<Rightarrow> date \<Rightarrow> (error + unit) \<times> db" where
  "startGig d u gid now =
     (case findById gid d of
        None \<Rightarrow> (Inl NotFound, d)
      | Some g \<Rightarrow>
          (case worker g of
             None \<Rightarrow> (Inl InternalFailure, d)
           | Some w \<Rightarrow>
               if w \<noteq> user_id u then (Inl Forbidden, d)
               else if status g \<noteq> Assigned then (Inl InvalidTransition, d)
               else
                 (let g' = g\<lparr>status := InProgress, startedAt := Some now\<rparr>
                  in (case save_gig g g' d of
                        Inl e \<Rightarrow> (Inl InternalFailure, d)
                      | Inr d1 \<Rightarrow> (Inr (), d1)))))"

text \<open>
  \<^verbatim>\<open>new Payment({gig, store, worker, amount})\<close> (part\_003, lines 409 to 414): the four
  paths given, the default status, and nothing for the other paths.
\<close>

definition new_Payment :: "oid \<Rightarrow> oid \<Rightarrow> oid \<Rightarrow> number option \<Rightarrow> payment" where
  "new_Payment g_id s w a =
     \<lparr>pay_gig = g_id, pay_store = s, pay_worker = w, amount = a,
      platformFee = None, workerAmount = None, pay_status = PayPending,
      paymentMethod = None, transactionId = None\<rparr>"

text \<open>
  \<^verbatim>\<open>PUT /:id/complete\<close> (part\_003, lines 379 to 437). The gig is saved as completed
  before the payment is built and saved; when the save of the payment throws, the
  \<^verbatim>\<open>catch\<close> block answers 500 and the gig stays completed.
\<close>

definition completeGig :: "db \<Rightarrow> user \<Rightarrow> oid \<Rightarrow> date \<Rightarrow> (error + unit) \<times> db" where
  "completeGig d u gid now =
     (case findById gid d of
        None \<Rightarrow> (Inl NotFound, d)
      | Some g \<Rightarrow>
          (case worker g of
             None \<Rightarrow> (Inl InternalFailure, d)
           | Some w \<Rightarrow>
               if w \<noteq> user_id u then (Inl Forbidden, d)
               else if status g \<noteq> InProgress then (Inl InvalidTransition, d)
               else
                 (let g' = g\<lparr>status := Completed, completedAt := Some now\<rparr>
                  in (case save_gig g g' d of
                        Inl e \<Rightarrow> (Inl InternalFailure, d)
                      | Inr d1 \<Rightarrow>
                          (case save_payment
                                  (new_Payment (gig_id g') (store g') w (totalAmount g')) d1 of
                             Inl e \<Rightarrow> (Inl InternalFailure, d1)
                           | Inr d2 \<Rightarrow>
                               (Inr (),
                                Notification_create
                                  \<lparr>recipient = store g',
                                   ntype = ''gig_completed'',
                                   ntitle = ''Gig Completed'',
                                   nmessage = fullName u @ '' has completed the gig: '' @
                                              title g',
                                   ngigId = gig_id g',
                                   isRead = False\<rparr> d2))))))"

section \<open>Sequences of requests\<close>

datatype request =
    CreateGig user gig_body oid
  | ApplyForGig user oid "string option" oid date
  | ResolveApplication user oid id_text string date
  | StartGig user oid date
  | CompleteGig user oid date

fun exec :: "db \<Rightarrow> request \<Rightarrow> db" where
  "exec d (CreateGig u b new_id) = snd (createGig d u b new_id)"
| "exec d (ApplyForGig u gid msg new_id now) = snd (applyForGig d u gid msg new_id now)"
| "exec d (ResolveApplication u gid aid action now) = snd (resolveApplication d u gid aid action now)"
| "exec d (StartGig u gid now) = snd (startGig d u gid now)"
| "exec d (CompleteGig u gid now) = snd (completeGig d u gid now)"

definition run :: "db \<Rightarrow> request list \<Rightarrow> db" where
  "run d rs = foldl exec d rs"

section \<open>Auxiliary notions and example data\<close>

text \<open>
  What the accept branch makes of one application when the ids of the list are distinct
  and the text of the request is the one that \<^verbatim>\<open>toString()\<close> prints for the id: the
  application with the id is accepted, every other one rejected.
\<close>

definition resolved :: "oid \<Rightarrow> application \<Rightarrow> application" where
  "resolved aid x =
     (if app_id x = aid then x\<lparr>app_status := Accepted\<rparr> else x\<lparr>app_status := Rejected\<rparr>)"

text \<open>
  The scenario of the specification: a store, workers A, B, C and D, and a gig of three
  hours at 100 per hour, with the pending applications of A, B and C.
\<close>

definition store_user :: user where
  "store_user = \<lparr>user_id = 1, fullName = ''Asha Stores''\<rparr>"

definition worker_a :: user where
  "worker_a = \<lparr>user_id = 11, fullName = ''Worker A''\<rparr>"

definition worker_b :: user where
  "worker_b = \<lparr>user_id = 12, fullName = ''Worker B''\<rparr>"



definition pending_application :: "oid \<Rightarrow> oid \<Rightarrow> application" where
  "pending_application aid w =
     \<lparr>app_id = aid, app_worker = w, appliedAt = 5, app_message = [], app_status = Pending\<rparr>"

definition scenario_gig :: gig where
  "scenario_gig =
     \<lparr>gig_id = 100, title = ''Shelf stocking'',
      description = ''Restock the shelves of the store'',
      category = ''retail'', store = 1, worker = None,
      address = ''12 MG Road'', city = ''Pune'', state = ''MH'',
      pincode = ''411001'', startTime = 0, endTime = 10800000,
      duration = 3, hourlyRate = 100, totalAmount = Some 300,
      status = Open,
      applications = [pending_application 201 11, pending_application 202 12,
                      pending_application 203 13],
      assignedAt = None, startedAt = None, completedAt = None,
      maxApplications = 10, views = 0\<rparr>"

definition db_of :: "gig \<Rightarrow> db" where
  "db_of g = \<lparr>gigs = [g], payments = [], notifications = []\<rparr>"


definition completed_gig :: gig where
  "completed_gig = scenario_gig\<lparr>worker := Some 12, status := Completed\<rparr>"


definition after_first_accept :: db where
  "after_first_accept =
     snd (resolveApplication (db_of scenario_gig) store_user 100 (Canonical 201) ''accept'' 8)"

text \<open>
  The invariant of the specification that ties the worker of a gig to its status, and
  the databases all of whose gigs satisfy it.
\<close>

definition worker_status_inv :: "gig \<Rightarrow> bool" where
  "worker_status_inv g =
     ((worker g \<noteq> None) =
      (status g = Assigned \<or> status g = InProgress \<or> status g = Completed))"

definition db_inv :: "db \<Rightarrow> bool" where
  "db_inv d = list_all worker_status_inv (gigs d)"

text \<open>
  A request leaves the status and the worker of a new gig to the schema defaults when
  it is not a create request, or its body carries neither path.
\<close>

fun leaves_defaults :: "request \<Rightarrow> bool" where
  "leaves_defaults (CreateGig u b new_id) = (b_status b = None \<and> b_worker b = None)"
| "leaves_defaults r = True"

text \<open>
  The rate and the duration of a gig, and their product, are within the range of finite
  doubles: there the double arithmetic of the model is that of the code.
\<close>

definition finite_amounts :: "gig \<Rightarrow> bool" where
  "finite_amounts g =
     (finite_double (hourlyRate g) \<and> finite_double (duration g) \<and>
      finite_double (hourlyRate g * duration g))"

text \<open>Bodies and gigs for the examples below.\<close>

definition scenario_body :: gig_body where
  "scenario_body =
     \<lparr>b_title = Some ''Shelf stocking'',
      b_description = Some ''Restock the shelves of the store'',
      b_category = Some ''retail'',
      b_address = Some ''12 MG Road'',
      b_city = Some ''Pune'',
      b_state = Some ''MH'',
      b_pincode = Some ''411001'',
      b_startTime = Parsed 0,
      b_endTime = Parsed 10800000,
      b_hourlyRate = Parsed 100,
      b_totalAmount = Some 0,
      b_status = None,
      b_worker = None,
      b_maxApplications = None\<rparr>"

definition reversed_body :: gig_body where
  "reversed_body = scenario_body\<lparr>b_startTime := Parsed 10800000, b_endTime := Parsed 0\<rparr>"

definition assigned_body :: gig_body where
  "assigned_body = scenario_body\<lparr>b_status := Some Assigned\<rparr>"

definition bare_body :: gig_body where
  "bare_body = scenario_body\<lparr>b_totalAmount := None\<rparr>"

definition in_progress_gig :: gig where
  "in_progress_gig = scenario_gig\<lparr>worker := Some 12, status := InProgress\<rparr>"

definition decimal_body :: gig_body where
  "decimal_body = scenario_body\<lparr>b_hourlyRate := Parsed (1001 / 10)\<rparr>"

definition decimal_gig :: gig where
  "decimal_gig =
     scenario_gig\<lparr>applications := [],
       hourlyRate := 3521955646092083 / 35184372088832,
       totalAmount := Some (1320733367284531 / 4398046511104)\<rparr>"

definition repriced_gig :: gig where
  "repriced_gig = scenario_gig\<lparr>hourlyRate := 120\<rparr>"

definition scenario_requests :: "request list" where
  "scenario_requests =
     [CreateGig store_user scenario_body 100,
      ApplyForGig worker_a 100 None 201 5,
      ApplyForGig worker_b 100 (Some ''  hi '') 202 6,
      ResolveApplication store_user 100 (Canonical 202) ''accept'' 8,
      StartGig worker_b 100 9]"

definition negative_rate_gig :: gig where
  "negative_rate_gig = scenario_gig\<lparr>hourlyRate := - 5\<rparr>"

section \<open>Lemmas about the store and the application list\<close>


lemmas store_defs = findById_def write_gig_def insert_gig_def save_gig_def gig_pre_save_def
  calculateTotalAmount_def Notification_create_def validate_gig_def categories_def

lemmas validator_defs = create_validators_def notEmpty_def str_of_def isLength_def trim_def
  is_space_def isIn_def categories_def isISO8601_def isFloat_min_def

lemma findById_id: "findById gid d = Some g \<Longrightarrow> gig_id g = gid"
  by (auto simp: findById_def find_Some_iff)

lemma find_map_replace:
  assumes "find (\<lambda>x. gig_id x = gid) xs = Some g" and "gig_id g' = gid"
  shows "find (\<lambda>x. gig_id x = gid) (map (\<lambda>x. if gig_id x = gid then g' else x) xs) = Some g'"
  using assms by (induction xs) (auto split: if_splits)

lemma gig_id_pre_save [simp]: "gig_id (gig_pre_save rm dm g) = gig_id g"
  by (simp add: gig_pre_save_def calculateTotalAmount_def)

lemma findById_write_gig:
  assumes "findById gid d = Some g" and "gig_id g' = gid"
  shows "findById gid (write_gig g' d) = Some g'"
  using assms find_map_replace [of gid "gigs d" g g']
  by (simp add: findById_def write_gig_def)

lemma findById_Notification_create [simp]:
  "findById gid (Notification_create n d) = findById gid d"
  by (simp add: findById_def Notification_create_def)

lemma save_gig_unchanged_inputs:
  assumes "validate_gig g'" and "hourlyRate g' = hourlyRate g" and "duration g' = duration g"
  shows "save_gig g g' d = Inr (write_gig g' d)"
  using assms by (simp add: save_gig_def gig_pre_save_def)

lemma save_gig_refused: "\<not> validate_gig g' \<Longrightarrow> save_gig g g' d = Inl InternalFailure"
  by (simp add: save_gig_def)



lemma set_application_status_distinct:
  "distinct (map app_id apps) \<Longrightarrow>
   set_application_status aid s apps =
     map (\<lambda>x. if app_id x = aid then x\<lparr>app_status := s\<rparr> else x) apps"
proof (induction apps)
  case Nil
  then show ?case by simp
next
  case (Cons a rest)
  show ?case
  proof (cases "app_id a = aid")
    case True
    with Cons.prems have "\<forall>x \<in> set rest. app_id x \<noteq> aid" by (auto simp: image_iff)
    then have "map (\<lambda>x. if app_id x = aid then x\<lparr>app_status := s\<rparr> else x) rest = rest"
      by (intro map_idI) simp
    with True show ?thesis by simp
  next
    case False
    with Cons show ?thesis by simp
  qed
qed

lemma accept_cascade_map:
  "distinct (map app_id apps) \<Longrightarrow>
   reject_others (Canonical aid) (set_application_status aid Accepted apps)
     = map (resolved aid) apps"
  by (simp add: set_application_status_distinct reject_others_def resolved_def
      toString_equals_def)

lemma filter_id_distinct:
  "distinct (map app_id apps) \<Longrightarrow> find (\<lambda>x. app_id x = aid) apps = Some a \<Longrightarrow>
   filter (\<lambda>x. app_id x = aid) apps = [a]"
proof (induction apps)
  case Nil
  then show ?case by simp
next
  case (Cons b rest)
  show ?case
  proof (cases "app_id b = aid")
    case True
    with Cons.prems have "\<forall>x \<in> set rest. app_id x \<noteq> aid" by (auto simp: image_iff)
    then have "filter (\<lambda>x. app_id x = aid) rest = []" by (simp add: filter_empty_conv)
    with True Cons.prems show ?thesis by simp
  next
    case False
    with Cons show ?thesis by simp
  qed
qed

lemma accepted_after_cascade:
  "filter (\<lambda>x. app_status x = Accepted) (map (resolved aid) apps) =
   map (resolved aid) (filter (\<lambda>x. app_id x = aid) apps)"
  by (induction apps) (simp_all add: resolved_def)

lemma rejected_after_cascade:
  "filter (\<lambda>x. app_status x = Rejected) (map (resolved aid) apps) =
   map (resolved aid) (filter (\<lambda>x. app_id x \<noteq> aid) apps)"
  by (induction apps) (simp_all add: resolved_def)

lemma pending_after_cascade:
  "filter (\<lambda>x. app_status x = Pending) (map (resolved aid) apps) = []"
  by (induction apps) (simp_all add: resolved_def)

lemma length_filter_other:
  "filter (\<lambda>x. app_id x = aid) apps = [a] \<Longrightarrow>
   length (filter (\<lambda>x. app_id x \<noteq> aid) apps) = length apps - 1"
  using sum_length_filter_compl [of "\<lambda>x. app_id x = aid" apps] by simp

lemma scenario_found: "findById 100 (db_of scenario_gig) = Some scenario_gig"
  by (simp add: findById_def db_of_def scenario_gig_def)

text \<open>Doubles that the examples meet, evaluated.\<close>

lemma double_examples:
  "fl (1001 / 10) = 3521955646092083 / 35184372088832"
  "fmul (fl (1001 / 10)) 3 = 1320733367284531 / 4398046511104"
  "fdiv (fsub 1200000 0) (1000 * 60 * 60) = 6004799503160661 / 18014398509481984"
  "fmul 51 (fl (1 / 10)) = 5742089524897383 / 1125899906842624"
  "fmul 100 3 = 300" "fmul 120 3 = 360"
  by code_simp+

section \<open>Accepting an application\<close>

text \<open>
  What claim C1 says holds when the text of the request is the one that
  \<^verbatim>\<open>toString()\<close> prints for the id: on a stored gig that its schema accepts, whose \<open>N\<close>
  applications are all pending and carry distinct ids, the accept by the owning store
  answers with success, assigns the gig to the worker of the application, accepts that
  application alone and rejects the \<open>N - 1\<close> others.
\<close>

lemma accept_cascade_canonical:
  assumes found: "findById gid d = Some g"
      and valid: "validate_gig g"
      and owner: "store g = user_id u"
      and app: "applications_id (Canonical aid) (applications g) = Some a"
      and ids: "distinct (map app_id (applications g))"
      and n: "length (applications g) = N"
      and res: "resolveApplication d u gid (Canonical aid) ''accept'' now = (r, d')"
  shows "r = Inr () \<and>
         (\<exists>g'. findById gid d' = Some g' \<and>
            status g' = Assigned \<and> worker g' = Some (app_worker a) \<and>
            filter (\<lambda>x. app_status x = Accepted) (applications g')
              = [a\<lparr>app_status := Accepted\<rparr>] \<and>
            app_id a = aid \<and>
            length (filter (\<lambda>x. app_status x = Rejected) (applications g')) = N - 1 \<and>
            filter (\<lambda>x. app_status x = Pending) (applications g') = [] \<and>
            length (applications g') = N)"
proof -
  define g' where "g' = g\<lparr>worker := Some (app_worker a), status := Assigned,
    assignedAt := Some now, applications := map (resolved aid) (applications g)\<rparr>"
  have gid: "gig_id g' = gid" using findById_id [OF found] by (simp add: g'_def)
  have find_a: "find (\<lambda>x. app_id x = aid) (applications g) = Some a"
    using app by (simp add: applications_id_def castObjectId_def)
  have a_id: "app_id a = aid"
    using find_a by (auto simp: find_Some_iff)
  have only: "filter (\<lambda>x. app_id x = aid) (applications g) = [a]"
    using filter_id_distinct [OF ids find_a] .
  have "validate_gig g'" using valid by (simp add: validate_gig_def g'_def)
  then have save: "save_gig g g' dd = Inr (write_gig g' dd)" for dd
    by (rule save_gig_unchanged_inputs) (simp_all add: g'_def)
  have eq: "resolveApplication d u gid (Canonical aid) ''accept'' now =
      (Inr (), write_gig g'
         (Notification_create
            \<lparr>recipient = app_worker a, ntype = ''application_accepted'',
             ntitle = ''Application Accepted'',
             nmessage = ''Your application for '' @ title g @ '' has been accepted!'',
             ngigId = gig_id g, isRead = False\<rparr> d))"
    using found owner app save
    by (simp add: resolveApplication_def a_id accept_cascade_map [OF ids] g'_def)
  have stored: "findById gid d' = Some g'"
    using res found gid findById_write_gig [of gid _ g g']
    unfolding eq by auto
  have acc: "filter (\<lambda>x. app_status x = Accepted) (applications g')
      = [a\<lparr>app_status := Accepted\<rparr>]"
    by (simp add: g'_def accepted_after_cascade only) (simp add: resolved_def a_id)
  have rej: "length (filter (\<lambda>x. app_status x = Rejected) (applications g')) = N - 1"
    by (simp add: g'_def rejected_after_cascade length_filter_other [OF only] n)
  have pen: "filter (\<lambda>x. app_status x = Pending) (applications g') = []"
    by (simp add: g'_def pending_after_cascade)
  have "r = Inr ()" using res eq by simp
  moreover have "status g' = Assigned" "worker g' = Some (app_worker a)"
      "length (applications g') = N"
    by (simp_all add: g'_def n)
  ultimately show ?thesis using stored acc rej pen a_id by blast
qed

text \<open>
  Claim C1. The handler finds the application by casting the text of the request to an
  id, but its cascade compares that text with what \<^verbatim>\<open>toString()\<close> prints. On the open
  scenario gig with its three pending applications, the owning store accepts the
  application of worker B, naming its id with the letters in upper case: the answer is
  success and the gig is assigned to B, but the cascade rejects all three applications,
  the one just accepted among them, so that none is accepted.
\<close>

theorem C1_variant_id_rejects_all:
  "status scenario_gig = Open \<and>
   store scenario_gig = user_id store_user \<and>
   map app_status (applications scenario_gig) = [Pending, Pending, Pending] \<and>
   applications_id (Variant 202) (applications scenario_gig)
     = Some (pending_application 202 12) \<and>
   fst (resolveApplication (db_of scenario_gig) store_user 100 (Variant 202) ''accept'' 8)
     = Inr () \<and>
   map (\<lambda>g. (status g, worker g, map app_status (applications g)))
     (gigs (snd (resolveApplication (db_of scenario_gig) store_user 100 (Variant 202)
        ''accept'' 8)))
     = [(Assigned, Some 12, [Rejected, Rejected, Rejected])]"
  by code_simp

text \<open>
  Claim C2. After the store has accepted the application of worker A on the scenario
  gig, the gig is assigned to A. A second \<^verbatim>\<open>accept\<close>, for the application of worker B,
  is not refused: the handler has no check of the gig's status, answers with success,
  hands the gig to B and rejects the application of A that it had accepted.
\<close>

theorem C2_second_accept_succeeds:
  "map (\<lambda>g. (status g, worker g, map app_status (applications g))) (gigs after_first_accept)
     = [(Assigned, Some 11, [Accepted, Rejected, Rejected])] \<and>
   fst (resolveApplication after_first_accept store_user 100 (Canonical 202) ''accept'' 9)
     = Inr () \<and>
   map (\<lambda>g. (status g, worker g, map app_status (applications g)))
     (gigs (snd (resolveApplication after_first_accept store_user 100 (Canonical 202)
        ''accept'' 9)))
     = [(Assigned, Some 12, [Rejected, Accepted, Rejected])]"
  by code_simp

section \<open>Starting and completing\<close>

text \<open>
  Claim C6. When the caller is the worker of the gig, \<open>startGig\<close> on a gig whose status
  is not assigned, and \<open>completeGig\<close> on a gig whose status is not in-progress, answer
  \<open>InvalidTransition\<close> and leave the database as it was.
\<close>

theorem C6_status_guards:
  assumes "findById gid d = Some g" and "worker g = Some (user_id u)"
  shows "(status g \<noteq> Assigned \<longrightarrow> startGig d u gid now = (Inl InvalidTransition, d)) \<and>
         (status g \<noteq> InProgress \<longrightarrow> completeGig d u gid now = (Inl InvalidTransition, d))"
  using assms by (simp add: startGig_def completeGig_def)

theorem C6_status_guards_witness:
  "findById 100 (db_of completed_gig) = Some completed_gig \<and>
   worker completed_gig = Some (user_id worker_b) \<and>
   status completed_gig \<noteq> Assigned \<and> status completed_gig \<noteq> InProgress \<and>
   startGig (db_of completed_gig) worker_b 100 7
     = (Inl InvalidTransition, db_of completed_gig) \<and>
   completeGig (db_of completed_gig) worker_b 100 7
     = (Inl InvalidTransition, db_of completed_gig)"
proof -
  have f: "findById 100 (db_of completed_gig) = Some completed_gig"
    by (simp add: findById_def db_of_def completed_gig_def scenario_gig_def)
  have w: "worker completed_gig = Some (user_id worker_b)"
    by (simp add: completed_gig_def worker_b_def)
  have s: "status completed_gig \<noteq> Assigned" "status completed_gig \<noteq> InProgress"
    by (simp_all add: completed_gig_def)
  show ?thesis using C6_status_guards [OF f w, of 7] f w s by simp
qed

text \<open>
  Claim C10. For a stored gig that has no worker, \<open>startGig\<close> and \<open>completeGig\<close> answer
  with the internal failure of the \<^verbatim>\<open>catch\<close> block, not with \<open>Forbidden\<close> or
  \<open>InvalidTransition\<close>: the ownership check dereferences the missing worker before the
  status is looked at. The database is left as it was.
\<close>

theorem C10_null_worker:
  assumes "findById gid d = Some g" and "worker g = None"
  shows "startGig d u gid now = (Inl InternalFailure, d) \<and>
         completeGig d u gid now = (Inl InternalFailure, d)"
  using assms by (simp add: startGig_def completeGig_def)

theorem C10_null_worker_witness:
  "findById 100 (db_of scenario_gig) = Some scenario_gig \<and> worker scenario_gig = None \<and>
   startGig (db_of scenario_gig) worker_a 100 7 = (Inl InternalFailure, db_of scenario_gig) \<and>
   completeGig (db_of scenario_gig) worker_a 100 7 = (Inl InternalFailure, db_of scenario_gig)"
proof -
  have w: "worker scenario_gig = None"
    by (simp add: scenario_gig_def)
  show ?thesis using C10_null_worker [OF scenario_found w] scenario_found w by simp
qed

section \<open>Applying\<close>








section \<open>Creating\<close>

text \<open>
  Claim C9. The validators of the create route do not compare the two instants
  (\<^verbatim>\<open>isValidGigTime\<close> of \<^verbatim>\<open>src/utils/helpers.js\<close>, whose comment reads
  \<^verbatim>\<open>End time must be after start time\<close>, is never called): a body that is valid
  apart from an end three hours before its start is not answered \<open>ValidationError\<close>;
  a gig of duration \<open>-3\<close> and total \<open>-300\<close> is stored.
\<close>

theorem C9_reversed_times_accepted:
  "b_startTime reversed_body = Parsed 10800000 \<and> b_endTime reversed_body = Parsed 0 \<and>
   fst (createGig empty_db store_user reversed_body 100) \<noteq> Inl ValidationError \<and>
   map (\<lambda>g. (startTime g, endTime g, duration g, totalAmount g))
     (gigs (snd (createGig empty_db store_user reversed_body 100)))
     = [(10800000, 0, - 3, Some (- 300))]"
  by code_simp

text \<open>
  The rest of claim C9 holds: a body with a required text path missing or empty, a
  category outside the enumeration, a rate that is missing, not numeric or read as a
  double below 50, or a start or end that is missing or not an ISO 8601 instant is
  answered \<open>ValidationError\<close>, and the database is left as it was.
\<close>

lemma createGig_validation:
  assumes "\<not> notEmpty (b_title b) \<or> \<not> notEmpty (b_description b) \<or>
           \<not> notEmpty (b_address b) \<or> \<not> notEmpty (b_city b) \<or>
           \<not> notEmpty (b_state b) \<or> \<not> notEmpty (b_pincode b) \<or>
           str_of (b_category b) \<notin> set categories \<or>
           (\<forall>r. b_hourlyRate b = Parsed r \<longrightarrow> fl r < 50) \<or>
           (\<forall>t. b_startTime b \<noteq> Parsed t) \<or> (\<forall>t. b_endTime b \<noteq> Parsed t)"
  shows "createGig d u b new_id = (Inl ValidationError, d)"
proof -
  have "\<not> create_validators b"
    using assms
    by (auto simp: create_validators_def isIn_def isISO8601_def isFloat_min_def
        split: parsed.splits)
  then show ?thesis by (simp add: createGig_def)
qed

text \<open>
  A body that passes every validator but carries no \<open>totalAmount\<close> is answered 500 and
  nothing is stored: the schema requires the path, and the first save validates the
  document before the pre-save hook, and before line 69 of the route, could compute it.
\<close>

lemma createGig_needs_totalAmount:
  assumes "create_validators b" and "b_totalAmount b = None"
  shows "createGig d u b new_id = (Inl InternalFailure, d)"
  using assms
  by (auto simp: createGig_def create_validators_def isISO8601_def isFloat_min_def
      save_new_gig_def validate_gig_def new_Gig_def split: parsed.splits)

lemma bare_body_refused:
  "create_validators bare_body \<and> b_totalAmount bare_body = None \<and>
   createGig empty_db store_user bare_body 100 = (Inl InternalFailure, empty_db)"
  by code_simp

lemma createGig_total:
  assumes "createGig d u b new_id = (Inr g, d')"
  shows "totalAmount g = Some (fmul (hourlyRate g) (duration g)) \<and> g \<in> set (gigs d')"
proof -
  from assms obtain s e r0 g1 d1 where
    first: "save_new_gig (new_Gig b u new_id s e r0) d = Inr (g1, d1)"
    and g: "g = calculateTotalAmount g1"
    and second: "save_gig g1 g d1 = Inr d'"
    by (auto simp: createGig_def Let_def
        split: if_splits parsed.splits sum.splits prod.splits)
  have t: "totalAmount g = Some (fmul (hourlyRate g) (duration g))"
    by (simp add: g calculateTotalAmount_def)
  have d1: "g1 \<in> set (gigs d1)"
    using first by (auto simp: save_new_gig_def insert_gig_def Let_def split: if_splits)
  have same: "hourlyRate g = hourlyRate g1" "duration g = duration g1" "gig_id g = gig_id g1"
    by (simp_all add: g calculateTotalAmount_def)
  have "d' = write_gig g d1"
    using second same by (auto simp: save_gig_def gig_pre_save_def split: if_splits)
  then have "g \<in> set (gigs d')"
    using d1 same by (auto simp: write_gig_def)
  with t show ?thesis by simp
qed

lemma decimal_created:
  "createGig empty_db store_user decimal_body 100 = (Inr decimal_gig, db_of decimal_gig)"
  by code_simp

text \<open>
  Claim C4, with \<open>*\<close> read as the product of doubles that the code computes, for gigs
  whose rate, duration and product are within the range of finite doubles. The gig that \<open>createGig\<close> answers with and stores
  has \<open>totalAmount = hourlyRate * duration\<close>. When a stored gig is saved with a rate or
  a duration other than the one it was loaded with, and the schema accepts the
  document, the save succeeds and stores the gig with its new rate and duration and
  with the total recomputed from them by the pre-save hook; a document that the schema
  refuses is not stored.
\<close>

theorem C4_total_amount:
  "(createGig d u b new_id = (Inr g, d') \<and> finite_amounts g \<longrightarrow>
      totalAmount g = Some (fmul (hourlyRate g) (duration g)) \<and> g \<in> set (gigs d')) \<and>
   (findById gid d0 = Some g0 \<and> gig_id g1 = gid \<and> validate_gig g1 \<and>
    (hourlyRate g1 \<noteq> hourlyRate g0 \<or> duration g1 \<noteq> duration g0) \<and>
    finite_amounts g1 \<longrightarrow>
      (\<exists>d1 g'. save_gig g0 g1 d0 = Inr d1 \<and> findById gid d1 = Some g' \<and>
         hourlyRate g' = hourlyRate g1 \<and> duration g' = duration g1 \<and>
         totalAmount g' = Some (fmul (hourlyRate g') (duration g')))) \<and>
   (\<not> validate_gig g1 \<longrightarrow> save_gig g0 g1 d0 = Inl InternalFailure)"
proof (intro conjI impI)
  assume "createGig d u b new_id = (Inr g, d') \<and> finite_amounts g"
  then show "totalAmount g = Some (fmul (hourlyRate g) (duration g))" "g \<in> set (gigs d')"
    using createGig_total by blast+
next
  assume a: "findById gid d0 = Some g0 \<and> gig_id g1 = gid \<and> validate_gig g1 \<and>
    (hourlyRate g1 \<noteq> hourlyRate g0 \<or> duration g1 \<noteq> duration g0) \<and>
    finite_amounts g1"
  then have s: "save_gig g0 g1 d0 = Inr (write_gig (calculateTotalAmount g1) d0)"
    by (auto simp: save_gig_def gig_pre_save_def)
  have "findById gid (write_gig (calculateTotalAmount g1) d0) = Some (calculateTotalAmount g1)"
    using a by (intro findById_write_gig [of gid d0 g0]) (simp_all add: calculateTotalAmount_def)
  with s show "\<exists>d1 g'. save_gig g0 g1 d0 = Inr d1 \<and> findById gid d1 = Some g' \<and>
         hourlyRate g' = hourlyRate g1 \<and> duration g' = duration g1 \<and>
         totalAmount g' = Some (fmul (hourlyRate g') (duration g'))"
    by (simp add: calculateTotalAmount_def)
next
  assume "\<not> validate_gig g1"
  then show "save_gig g0 g1 d0 = Inl InternalFailure" by (rule save_gig_refused)
qed

theorem C4_total_amount_witness:
  "createGig empty_db store_user decimal_body 100 = (Inr decimal_gig, db_of decimal_gig) \<and>
   finite_amounts decimal_gig \<and>
   totalAmount decimal_gig = Some (fmul (hourlyRate decimal_gig) (duration decimal_gig)) \<and>
   totalAmount decimal_gig = Some (1320733367284531 / 4398046511104) \<and>
   decimal_gig \<in> set (gigs (db_of decimal_gig)) \<and>
   findById 100 (db_of scenario_gig) = Some scenario_gig \<and>
   gig_id repriced_gig = 100 \<and> validate_gig repriced_gig \<and>
   hourlyRate repriced_gig \<noteq> hourlyRate scenario_gig \<and>
   totalAmount repriced_gig = Some 300 \<and>
   finite_amounts repriced_gig \<and>
   (\<exists>d1 g'. save_gig scenario_gig repriced_gig (db_of scenario_gig) = Inr d1 \<and>
      findById 100 d1 = Some g' \<and>
      hourlyRate g' = hourlyRate repriced_gig \<and> duration g' = duration repriced_gig \<and>
      totalAmount g' = Some (fmul (hourlyRate g') (duration g')) \<and>
      totalAmount g' = Some 360) \<and>
   \<not> validate_gig negative_rate_gig \<and>
   save_gig scenario_gig negative_rate_gig (db_of scenario_gig) = Inl InternalFailure"
proof -
  have c: "finite_amounts decimal_gig"
      "totalAmount decimal_gig = Some (1320733367284531 / 4398046511104)"
    by code_simp+
  have r: "gig_id repriced_gig = 100" "validate_gig repriced_gig"
      "hourlyRate repriced_gig \<noteq> hourlyRate scenario_gig"
      "totalAmount repriced_gig = Some 300"
      "finite_amounts repriced_gig"
    by code_simp+
  have v: "hourlyRate repriced_gig = 120" "duration repriced_gig = 3"
    by (simp_all add: repriced_gig_def scenario_gig_def)
  have n: "\<not> validate_gig negative_rate_gig"
    by (simp add: negative_rate_gig_def scenario_gig_def validate_gig_def)
  note t1 = C4_total_amount [where d = empty_db and u = store_user and b = decimal_body
      and new_id = 100 and g = decimal_gig and d' = "db_of decimal_gig" and gid = 100
      and ?d0.0 = "db_of scenario_gig" and ?g0.0 = scenario_gig and ?g1.0 = repriced_gig]
  note t2 = C4_total_amount [where ?d0.0 = "db_of scenario_gig" and ?g0.0 = scenario_gig
      and ?g1.0 = negative_rate_gig]
  from t1 decimal_created scenario_found c r
  obtain d1 g' where g':
      "save_gig scenario_gig repriced_gig (db_of scenario_gig) = Inr d1"
      "findById 100 d1 = Some g'"
      "hourlyRate g' = hourlyRate repriced_gig" "duration g' = duration repriced_gig"
      "totalAmount g' = Some (fmul (hourlyRate g') (duration g'))"
    by blast
  then have "totalAmount g' = Some 360" by (simp add: v double_examples)
  with g' t1 t2 decimal_created scenario_found c r n show ?thesis by blast
qed

section \<open>The worker and the status of a gig\<close>

lemma inv_pre_save [simp]: "worker_status_inv (gig_pre_save rm dm g) = worker_status_inv g"
  by (simp add: worker_status_inv_def gig_pre_save_def calculateTotalAmount_def)

lemma db_inv_write_gig: "db_inv d \<Longrightarrow> worker_status_inv g \<Longrightarrow> db_inv (write_gig g d)"
  by (auto simp: db_inv_def write_gig_def list_all_iff)

lemma db_inv_save_gig:
  "save_gig l g d = Inr d' \<Longrightarrow> db_inv d \<Longrightarrow> worker_status_inv g \<Longrightarrow> db_inv d'"
  by (auto simp: save_gig_def db_inv_write_gig split: if_splits)

lemma db_inv_insert_gig: "db_inv d \<Longrightarrow> worker_status_inv g \<Longrightarrow> db_inv (insert_gig g d)"
  by (simp add: db_inv_def insert_gig_def)

lemma db_inv_Notification_create [simp]: "db_inv (Notification_create n d) = db_inv d"
  by (simp add: db_inv_def Notification_create_def)

lemma db_inv_save_payment: "save_payment p d = Inr d' \<Longrightarrow> db_inv d' = db_inv d"
  by (auto simp: save_payment_def db_inv_def split: if_splits)

lemma db_inv_findById: "db_inv d \<Longrightarrow> findById gid d = Some g \<Longrightarrow> worker_status_inv g"
  by (auto simp: db_inv_def findById_def find_Some_iff list_all_iff)

lemma inv_createGig:
  assumes "db_inv d" and "b_status b = None" and "b_worker b = None"
  shows "db_inv (snd (createGig d u b new_id))"
proof (cases "create_validators b")
  case False
  with assms show ?thesis by (simp add: createGig_def)
next
  case True
  then obtain s e r0 where p: "b_startTime b = Parsed s" "b_endTime b = Parsed e"
      "b_hourlyRate b = Parsed r0"
    by (auto simp: create_validators_def isISO8601_def isFloat_min_def split: parsed.splits)
  have n: "worker_status_inv (new_Gig b u new_id s e r0)"
    using assms by (simp add: worker_status_inv_def new_Gig_def)
  show ?thesis
  proof (cases "save_new_gig (new_Gig b u new_id s e r0) d")
    case (Inl err)
    with True p assms show ?thesis by (simp add: createGig_def)
  next
    case (Inr r)
    obtain g1 d1 where r: "r = (g1, d1)" by (cases r)
    from Inr r have g1: "g1 = gig_pre_save True True (new_Gig b u new_id s e r0)"
      and d1: "d1 = insert_gig g1 d"
      by (auto simp: save_new_gig_def Let_def split: if_splits)
    have i1: "worker_status_inv g1" using n by (simp add: g1)
    then have i2: "worker_status_inv (calculateTotalAmount g1)"
      by (simp add: worker_status_inv_def calculateTotalAmount_def)
    have inv1: "db_inv d1" using assms(1) i1 by (simp add: d1 db_inv_insert_gig)
    show ?thesis
    proof (cases "save_gig g1 (calculateTotalAmount g1) d1")
      case (Inl err)
      with True p Inr r inv1 show ?thesis by (simp add: createGig_def Let_def)
    next
      case (Inr d2)
      then have "db_inv d2" using inv1 i2 by (rule db_inv_save_gig)
      with True p \<open>save_new_gig (new_Gig b u new_id s e r0) d = Inr r\<close> r Inr
      show ?thesis by (simp add: createGig_def Let_def)
    qed
  qed
qed

lemma inv_applyForGig:
  assumes "db_inv d"
  shows "db_inv (snd (applyForGig d u gid msg new_id now))"
proof (cases "findById gid d")
  case None
  with assms show ?thesis by (simp add: applyForGig_def)
next
  case (Some g)
  with assms have "worker_status_inv g" by (rule db_inv_findById)
  then have "worker_status_inv (g\<lparr>applications := apps\<rparr>)" for apps
    by (simp add: worker_status_inv_def)
  with assms Some show ?thesis
    by (auto simp: applyForGig_def Let_def split: sum.splits dest: db_inv_save_gig)
qed

lemma inv_resolveApplication:
  assumes "db_inv d"
  shows "db_inv (snd (resolveApplication d u gid aid action now))"
proof (cases "findById gid d")
  case None
  with assms show ?thesis by (simp add: resolveApplication_def)
next
  case (Some g)
  with assms have g: "worker_status_inv g" by (rule db_inv_findById)
  then have rej: "worker_status_inv (g\<lparr>applications := apps\<rparr>)" for apps
    by (simp add: worker_status_inv_def)
  have acc: "worker_status_inv (g\<lparr>worker := Some w, status := Assigned, assignedAt := t,
      applications := apps\<rparr>)" for w t apps
    by (simp add: worker_status_inv_def)
  have step: "db_inv (case save_gig g g' dd of Inl e \<Rightarrow> dd | Inr d2 \<Rightarrow> d2)"
    if "db_inv dd" "worker_status_inv g'" for g' dd
    using that by (auto split: sum.splits dest: db_inv_save_gig)
  have snd_case: "snd (case x of Inl e \<Rightarrow> (Inl InternalFailure, dd) | Inr d2 \<Rightarrow> (Inr (), d2))
      = (case x of Inl e \<Rightarrow> dd | Inr d2 \<Rightarrow> d2)" for x :: "error + db" and dd
    by (cases x) simp_all
  show ?thesis
    using assms Some
    by (simp add: resolveApplication_def Let_def snd_case step rej acc split: option.splits)
qed

lemma inv_startGig:
  assumes "db_inv d"
  shows "db_inv (snd (startGig d u gid now))"
proof (cases "findById gid d")
  case None
  with assms show ?thesis by (simp add: startGig_def)
next
  case (Some g)
  have "worker_status_inv (g\<lparr>status := InProgress, startedAt := t\<rparr>)"
    if "worker g = Some w" for w t
    using that by (simp add: worker_status_inv_def)
  with assms Some show ?thesis
    by (auto simp: startGig_def Let_def split: option.splits sum.splits dest: db_inv_save_gig)
qed

lemma inv_completeGig:
  assumes "db_inv d"
  shows "db_inv (snd (completeGig d u gid now))"
proof (cases "findById gid d")
  case None
  with assms show ?thesis by (simp add: completeGig_def)
next
  case (Some g)
  have "worker_status_inv (g\<lparr>status := Completed, completedAt := t\<rparr>)"
    if "worker g = Some w" for w t
    using that by (simp add: worker_status_inv_def)
  with assms Some show ?thesis
    by (auto simp: completeGig_def Let_def db_inv_save_payment
        split: option.splits sum.splits dest: db_inv_save_gig)
qed

lemma inv_exec: "db_inv d \<Longrightarrow> leaves_defaults r \<Longrightarrow> db_inv (exec d r)"
  by (cases r)
     (simp_all add: inv_createGig inv_applyForGig inv_resolveApplication inv_startGig
        inv_completeGig)

lemma inv_run: "db_inv d \<Longrightarrow> list_all leaves_defaults rs \<Longrightarrow> db_inv (run d rs)"
  unfolding run_def by (induction rs arbitrary: d) (simp_all add: inv_exec)

lemma scenario_run:
  "map (\<lambda>g. (status g, worker g, map app_status (applications g)))
     (gigs (run empty_db scenario_requests)) = [(InProgress, Some 12, [Rejected, Accepted])]"
  by code_simp

text \<open>
  Claim C5, as stated, fails: the create route hands the whole request body to the
  constructor of the gig, so a body that names the status \<^verbatim>\<open>assigned\<close> and no worker
  creates, through \<open>createGig\<close> alone, a gig that is assigned and has no worker.
\<close>

theorem C5_counterexample:
  "map (\<lambda>g. (status g, worker g))
     (gigs (run empty_db [CreateGig store_user assigned_body 100])) = [(Assigned, None)]"
  by code_simp

text \<open>
  Claim C5, amended. Starting from the empty database, after any sequence of
  \<open>createGig\<close>, \<open>applyForGig\<close>, \<open>resolveApplication\<close>, \<open>startGig\<close> and \<open>completeGig\<close>
  requests, whatever their callers, arguments and answers, in which every create request
  leaves the status and the worker to the schema defaults, every stored gig has a worker
  if and only if its status is assigned, in-progress or completed.
\<close>

theorem C5_worker_status_invariant:
  assumes "list_all leaves_defaults rs" and "g \<in> set (gigs (run empty_db rs))"
  shows "(worker g \<noteq> None) =
         (status g = Assigned \<or> status g = InProgress \<or> status g = Completed)"
proof -
  have "db_inv empty_db" by (simp add: db_inv_def empty_db_def)
  then have "db_inv (run empty_db rs)" using assms(1) by (rule inv_run)
  with assms(2) show ?thesis
    by (auto simp: db_inv_def list_all_iff worker_status_inv_def)
qed

theorem C5_worker_status_invariant_witness:
  "list_all leaves_defaults scenario_requests \<and>
   hd (gigs (run empty_db scenario_requests)) \<in> set (gigs (run empty_db scenario_requests)) \<and>
   status (hd (gigs (run empty_db scenario_requests))) = InProgress \<and>
   worker (hd (gigs (run empty_db scenario_requests))) = Some 12 \<and>
   ((worker (hd (gigs (run empty_db scenario_requests))) \<noteq> None) =
    (status (hd (gigs (run empty_db scenario_requests))) = Assigned \<or>
     status (hd (gigs (run empty_db scenario_requests))) = InProgress \<or>
     status (hd (gigs (run empty_db scenario_requests))) = Completed))"
proof -
  have l: "list_all leaves_defaults scenario_requests"
    by (simp add: scenario_requests_def scenario_body_def)
  obtain g where g: "gigs (run empty_db scenario_requests) = [g]"
    using scenario_run by auto
  then have m: "hd (gigs (run empty_db scenario_requests))
      \<in> set (gigs (run empty_db scenario_requests))" by simp
  have v: "status (hd (gigs (run empty_db scenario_requests))) = InProgress"
      "worker (hd (gigs (run empty_db scenario_requests))) = Some 12"
    using scenario_run g by simp_all
  show ?thesis using C5_worker_status_invariant [OF l m] l m v by simp
qed

section \<open>The payment of a completed gig\<close>

text \<open>
  Claim C3. The scenario gig is in progress with worker B and a total of 300. On
  \<open>completeGig\<close> by B the gig is stored as completed; the payment that the handler
  builds names no \<open>paymentMethod\<close>, and has no \<open>platformFee\<close> and no \<open>workerAmount\<close> when
  the schema checks its required paths, so its save throws: the answer is 500 and no
  payment is stored.
\<close>

theorem C3_completed_without_payment:
  "map (\<lambda>g. (status g, worker g, totalAmount g)) (gigs (db_of in_progress_gig))
     = [(InProgress, Some (user_id worker_b), Some 300)] \<and>
   fst (completeGig (db_of in_progress_gig) worker_b 100 10) = Inl InternalFailure \<and>
   map (\<lambda>g. (status g, completedAt g))
     (gigs (snd (completeGig (db_of in_progress_gig) worker_b 100 10)))
     = [(Completed, Some 10)] \<and>
   payments (snd (completeGig (db_of in_progress_gig) worker_b 100 10)) = []"
  by code_simp

text \<open>
  The same for every stored gig that its schema accepts: \<open>completeGig\<close> by the worker of
  an in-progress gig stores the gig as completed, stores no payment and answers 500; and
  no call of \<open>completeGig\<close> answers with success.
\<close>

lemma save_payment_of_completeGig:
  "save_payment (new_Payment g_id s w a) d = Inl InternalFailure"
  by (simp add: save_payment_def validate_payment_def new_Payment_def)

lemma completeGig_no_payment:
  assumes "findById gid d = Some g" and "validate_gig g"
      and "worker g = Some (user_id u)" and "status g = InProgress"
  shows "completeGig d u gid now =
           (Inl InternalFailure,
            write_gig (g\<lparr>status := Completed, completedAt := Some now\<rparr>) d) \<and>
         payments (snd (completeGig d u gid now)) = payments d"
proof -
  have "validate_gig (g\<lparr>status := Completed, completedAt := Some now\<rparr>)"
    using assms(2) by (simp add: validate_gig_def)
  then have "save_gig g (g\<lparr>status := Completed, completedAt := Some now\<rparr>) d
      = Inr (write_gig (g\<lparr>status := Completed, completedAt := Some now\<rparr>) d)"
    by (rule save_gig_unchanged_inputs) simp_all
  with assms show ?thesis
    by (simp add: completeGig_def Let_def save_payment_of_completeGig write_gig_def)
qed

lemma completeGig_never_succeeds: "fst (completeGig d u gid now) \<noteq> Inr ()"
  by (simp add: completeGig_def Let_def save_payment_of_completeGig
      split: option.splits sum.splits)

text \<open>No call of \<open>resolveApplication\<close> is answered \<open>InvalidTransition\<close>.\<close>

lemma resolveApplication_no_status_guard:
  "fst (resolveApplication d u gid aid action now) \<noteq> Inl InvalidTransition"
  by (simp add: resolveApplication_def Let_def split: option.splits sum.splits)

end
